theory Spec2Isabelle
  imports Complex_Main "HOL-Library.Sublist" "HOL-Library.Stream"
begin

section \<open>Python values used by the credential layer\<close>

text \<open>
  Python strings are modelled as \<open>string\<close>; a string is truthy exactly when it is
  not empty.  The timestamps of \<open>time.time()\<close> are modelled as reals, and the one
  non-finite float the code stores, \<open>float("inf")\<close>, as a value of its own, so rounding of
  binary floating point is outside the model.
\<close>

datatype pyfloat = Finite real | PosInf

fun float_sub :: "pyfloat \<Rightarrow> real \<Rightarrow> pyfloat" where
  "float_sub (Finite x) d = Finite (x - d)"
| "float_sub PosInf d = PosInf"

fun float_lt :: "real \<Rightarrow> pyfloat \<Rightarrow> bool" where
  "float_lt t (Finite x) = (t < x)"
| "float_lt t PosInf = True"

section \<open>Settings (settings.py)\<close>

record settings =
  base_url :: string
  access_token :: string
  client_id :: string
  client_secret :: string
  refresh_token :: string
  redirect_uri :: string
  oauth_token_url :: string
  read_only :: bool
  max_write_calls_per_session :: int

section \<open>TokenStore (auth.py)\<close>

text \<open>
  The dataclass fields \<open>_access_token\<close>, \<open>_refresh_token\<close> and \<open>_expires_at\<close>; the
  prefix \<open>ts\<close> replaces the leading underscore.
\<close>

record token_store =
  ts_access_token :: string
  ts_refresh_token :: string
  ts_expires_at :: pyfloat

definition TokenStore :: token_store where
  "TokenStore = \<lparr>ts_access_token = [], ts_refresh_token = [], ts_expires_at = Finite 0\<rparr>"

definition load_static :: "string \<Rightarrow> token_store \<Rightarrow> token_store" where
  "load_static token ts = ts\<lparr>ts_access_token := token, ts_expires_at := PosInf\<rparr>"

definition load_refresh_token :: "string \<Rightarrow> token_store \<Rightarrow> token_store" where
  "load_refresh_token rt ts = ts\<lparr>ts_refresh_token := rt\<rparr>"

text \<open>\<open>is_valid\<close> at the clock reading \<open>now\<close>.\<close>

definition is_valid :: "token_store \<Rightarrow> real \<Rightarrow> bool" where
  "is_valid ts now = (ts_access_token ts \<noteq> [] \<and> float_lt now (float_sub (ts_expires_at ts) 60))"

definition bearer :: "token_store \<Rightarrow> string" where
  "bearer ts = ''Bearer '' @ ts_access_token ts"


section \<open>Strings (the \<open>str\<close> operations the modules use)\<close>

text \<open>
  A character is one code point in the range 0 to 255.  \<open>py_isalnum\<close> and \<open>py_isspace\<close>
  are \<open>str.isalnum\<close> and \<open>str.isspace\<close> on that range.
\<close>

definition py_isalnum :: "char \<Rightarrow> bool" where
  "py_isalnum c =
     (let n = (of_char c :: nat) in
        (48 \<le> n \<and> n \<le> 57) \<or> (65 \<le> n \<and> n \<le> 90) \<or> (97 \<le> n \<and> n \<le> 122)
        \<or> n = 170 \<or> n = 178 \<or> n = 179 \<or> n = 181 \<or> n = 185 \<or> n = 186
        \<or> n = 188 \<or> n = 189 \<or> n = 190
        \<or> (192 \<le> n \<and> n \<le> 214) \<or> (216 \<le> n \<and> n \<le> 246) \<or> (248 \<le> n \<and> n \<le> 255))"

definition py_isspace :: "char \<Rightarrow> bool" where
  "py_isspace c =
     (let n = (of_char c :: nat) in
        (9 \<le> n \<and> n \<le> 13) \<or> (28 \<le> n \<and> n \<le> 32) \<or> n = 133 \<or> n = 160)"

definition strip :: "string \<Rightarrow> string" where
  "strip s = rev (dropWhile py_isspace (rev (dropWhile py_isspace s)))"

text \<open>\<open>sub in s\<close> for strings.\<close>

fun str_in :: "string \<Rightarrow> string \<Rightarrow> bool" where
  "str_in sub [] = (sub = [])"
| "str_in sub (c # cs) = (prefix sub (c # cs) \<or> str_in sub cs)"

text \<open>
  \<open>s.replace(old, new)\<close>: the occurrences of \<open>old\<close> are found from the left and do not
  overlap; an empty \<open>old\<close> matches before every character and at the end.
\<close>

function replace :: "string \<Rightarrow> string \<Rightarrow> string \<Rightarrow> string" where
  "replace old new [] = (if old = [] then new else [])"
| "replace old new (c # cs) =
     (if old = [] then new @ c # replace old new cs
      else if prefix old (c # cs) then new @ replace old new (drop (length old) (c # cs))
      else c # replace old new cs)"
  by pat_completeness auto
termination
  by (relation "measure (\<lambda>(old, new, s). length s)") auto

text \<open>\<open>str(n)\<close> for an integer.\<close>

definition digit_char :: "nat \<Rightarrow> char" where
  "digit_char d = ''0123456789'' ! d"

fun str_nat :: "nat \<Rightarrow> string" where
  "str_nat n =
     (if n < 10 then [digit_char n] else str_nat (n div 10) @ [digit_char (n mod 10)])"

definition str_int :: "int \<Rightarrow> string" where
  "str_int i = (if i < 0 then CHR ''-'' # str_nat (nat (- i)) else str_nat (nat i))"

section \<open>JSON documents and exceptions\<close>

text \<open>
  A JSON number is an integer or, when written with a fraction or an exponent, a float;
  like the timestamps, a float is modelled as a real.
\<close>

datatype json =
    JNull
  | JBool bool
  | JInt int
  | JFloat real
  | JStr string
  | JArr "json list"
  | JObj "(string \<times> json) list"

fun truthy :: "json \<Rightarrow> bool" where
  "truthy JNull = False"
| "truthy (JBool b) = b"
| "truthy (JInt n) = (n \<noteq> 0)"
| "truthy (JFloat x) = (x \<noteq> 0)"
| "truthy (JStr s) = (s \<noteq> [])"
| "truthy (JArr xs) = (xs \<noteq> [])"
| "truthy (JObj kvs) = (kvs \<noteq> [])"

fun is_dict :: "json \<Rightarrow> bool" where
  "is_dict (JObj kvs) = True"
| "is_dict _ = False"

text \<open>
  The two \<open>RuntimeError\<close>s of \<open>TokenStore.refresh\<close> are told apart by a tag in place of
  their message text; \<open>ValueError\<close> carries the rejected text, \<open>HTTPStatusError\<close> the
  status, \<open>TOCOnlineError\<close> its \<open>errors\<close> and \<open>status_code\<close>; \<open>OtherError\<close> stands for
  whatever else the network layer raises (connection failures, timeouts).
\<close>

datatype refresh_failure = MissingClientCredentials | NoRefreshToken

datatype exn =
    ValueError string
  | RuntimeError refresh_failure
  | HTTPStatusError int
  | KeyError string
  | JSONDecodeError
  | AttributeError
  | TypeError
  | OverflowError
  | TOCOnlineError json int
  | OtherError string

section \<open>Conversions to numbers\<close>

text \<open>
  \<open>int(text)\<close>: surrounding whitespace is dropped, a sign may come first, and what is
  left must be decimal digits, where single underscores may stand between digits.
\<close>

definition is_digit :: "char \<Rightarrow> bool" where
  "is_digit c = (48 \<le> (of_char c :: nat) \<and> (of_char c :: nat) \<le> 57)"

definition digit_value :: "char \<Rightarrow> nat" where
  "digit_value c = of_char c - 48"

fun int_digits :: "nat \<Rightarrow> string \<Rightarrow> nat option" where
  "int_digits acc [] = Some acc"
| "int_digits acc [c] = (if is_digit c then Some (acc * 10 + digit_value c) else None)"
| "int_digits acc (c # d # ds) =
     (if is_digit c then int_digits (acc * 10 + digit_value c) (d # ds)
      else if c = CHR ''_'' \<and> is_digit d then int_digits (acc * 10 + digit_value d) ds
      else None)"

definition int_of_str :: "string \<Rightarrow> int option" where
  "int_of_str text =
     (let t = strip text;
          negative = (t \<noteq> [] \<and> hd t = CHR ''-'');
          u = (if t \<noteq> [] \<and> (hd t = CHR ''-'' \<or> hd t = CHR ''+'') then tl t else t)
      in case u of
           [] \<Rightarrow> None
         | d # ds \<Rightarrow>
             if is_digit d
             then map_option (\<lambda>n. if negative then - int n else int n)
                    (int_digits (digit_value d) ds)
             else None)"

text \<open>
  \<open>int(v)\<close> for a JSON value: an integer is itself, a boolean is 0 or 1, a float is
  truncated toward zero, a string is parsed; \<open>None\<close>, a list and a dictionary raise
  \<open>TypeError\<close>, a string that is not a number raises \<open>ValueError\<close>.
\<close>

fun py_int :: "json \<Rightarrow> exn + int" where
  "py_int (JInt n) = Inr n"
| "py_int (JBool b) = Inr (if b then 1 else 0)"
| "py_int (JFloat x) = Inr (if 0 \<le> x then \<lfloor>x\<rfloor> else \<lceil>x\<rceil>)"
| "py_int (JStr t) = (case int_of_str t of None \<Rightarrow> Inl (ValueError t) | Some n \<Rightarrow> Inr n)"
| "py_int v = Inl TypeError"

text \<open>
  Adding an integer to a float converts the integer to a float first, and that raises
  \<open>OverflowError\<close> when the integer rounds to no finite float: from
  \<open>2^1024 - 2^970\<close> on, in either sign.
\<close>

definition float_add_int :: "real \<Rightarrow> int \<Rightarrow> exn + real" where
  "float_add_int x n =
     (if \<bar>n\<bar> < 2 ^ 1024 - 2 ^ 970 then Inr (x + of_int n) else Inl OverflowError)"

section \<open>The outside world\<close>

text \<open>
  A reply of the API: status, the value of \<open>response.json()\<close> (\<open>None\<close> when the body does
  not decode) and \<open>response.text\<close>.  In the payload of a reply of the token endpoint,
  \<open>access_token\<close> and \<open>refresh_token\<close> are strings, as the fields of the token store
  they are assigned to, and \<open>expires_in\<close> is any JSON value, which the code converts
  with \<open>int\<close>; each may be absent.
\<close>

record response =
  status_code :: int
  body_json :: "json option"
  body_text :: string

record token_payload =
  tp_access_token :: "string option"
  tp_refresh_token :: "string option"
  tp_expires_in :: "json option"

record token_response =
  tr_status_code :: int
  tr_json :: "token_payload option"

datatype keyring_outcome = NotInstalled | PasswordSet | NoKeyringError | BackendFailure

datatype event =
    TokenPost string "(string \<times> string) list"
  | ApiRequest string string string "(string \<times> json) list"
  | KeyringSet string string string
  | BrowserOpen string

text \<open>
  The world a call runs in: the shared \<open>TokenStore\<close> object, and what the environment will
  answer, in order, to each reading of the clock, each POST to the token endpoint, each API
  request and each call of \<open>store_refresh_token\<close> (an \<open>Inl\<close> answer is an exception raised by the HTTP
  client).  \<open>trace\<close> records the I/O performed, oldest first.
\<close>

record world =
  store :: token_store
  clock :: "real stream"
  token_endpoint :: "(exn + token_response) stream"
  api :: "(exn + response) stream"
  keyring :: "keyring_outcome stream"
  trace :: "event list"

definition time_time :: "world \<Rightarrow> real \<times> world" where
  "time_time w = (shd (clock w), w\<lparr>clock := stl (clock w)\<rparr>)"

definition client_post ::
  "string \<Rightarrow> (string \<times> string) list \<Rightarrow> world \<Rightarrow> (exn + token_response) \<times> world" where
  "client_post url data w =
     (shd (token_endpoint w),
      w\<lparr>token_endpoint := stl (token_endpoint w), trace := trace w @ [TokenPost url data]\<rparr>)"

definition client_request ::
  "string \<Rightarrow> string \<Rightarrow> string \<Rightarrow> (string \<times> json) list \<Rightarrow> world \<Rightarrow> (exn + response) \<times> world" where
  "client_request method path authorization kwargs w =
     (shd (api w),
      w\<lparr>api := stl (api w), trace := trace w @ [ApiRequest method path authorization kwargs]\<rparr>)"

text \<open>\<open>Response.is_success\<close> of httpx: the status is 2xx.\<close>

definition is_success :: "int \<Rightarrow> bool" where
  "is_success status = (200 \<le> status \<and> status \<le> 299)"

section \<open>Keychain (keychain.py)\<close>

definition SERVICE_NAME :: string where
  "SERVICE_NAME = ''toconline-mcp''"

definition REFRESH_TOKEN_KEY :: string where
  "REFRESH_TOKEN_KEY = ''refresh_token''"

text \<open>
  \<open>store_refresh_token\<close> returns a flag and never raises.  \<open>keyring.set_password\<close> is
  reached unless the package is not installed.
\<close>

definition store_refresh_token :: "string \<Rightarrow> world \<Rightarrow> bool \<times> world" where
  "store_refresh_token token w =
     (let w' = w\<lparr>keyring := stl (keyring w)\<rparr>;
          w'' = w'\<lparr>trace := trace w' @ [KeyringSet SERVICE_NAME REFRESH_TOKEN_KEY token]\<rparr>
      in case shd (keyring w) of
           NotInstalled \<Rightarrow> (False, w')
         | PasswordSet \<Rightarrow> (True, w'')
         | NoKeyringError \<Rightarrow> (False, w'')
         | BackendFailure \<Rightarrow> (False, w''))"

section \<open>Token renewal (auth.py)\<close>

text \<open>\<open>self._refresh_token or settings.refresh_token\<close>.\<close>

definition held_or_fallback :: "settings \<Rightarrow> world \<Rightarrow> string" where
  "held_or_fallback s w =
     (if ts_refresh_token (store w) \<noteq> [] then ts_refresh_token (store w) else refresh_token s)"

text \<open>\<open>int(payload.get("expires_in", 7890000))\<close>.\<close>

definition expires_in_seconds :: "token_payload \<Rightarrow> exn + int" where
  "expires_in_seconds payload =
     (case tp_expires_in payload of None \<Rightarrow> Inr 7890000 | Some v \<Rightarrow> py_int v)"

text \<open>
  In \<open>refresh\<close> the bearer is assigned first; the clock is read next, then
  \<open>expires_in\<close> is converted and added.  When the conversion or the addition raises,
  the bearer has been replaced and the expiry has not.
\<close>

definition refresh :: "settings \<Rightarrow> world \<Rightarrow> (exn + unit) \<times> world" where
  "refresh s w =
     (if client_id s = [] \<or> client_secret s = [] then (Inl (RuntimeError MissingClientCredentials), w)
      else
        let rt = held_or_fallback s w
        in if rt = [] then (Inl (RuntimeError NoRefreshToken), w)
        else
          let (r, w1) = client_post (oauth_token_url s)
                 [(''grant_type'', ''refresh_token''), (''refresh_token'', rt),
                  (''client_id'', client_id s), (''client_secret'', client_secret s),
                  (''scope'', ''commercial'')] w
          in case r of
               Inl e \<Rightarrow> (Inl e, w1)
             | Inr resp \<Rightarrow>
                 if \<not> is_success (tr_status_code resp)
                 then (Inl (HTTPStatusError (tr_status_code resp)), w1)
                 else (case tr_json resp of
                   None \<Rightarrow> (Inl JSONDecodeError, w1)
                 | Some payload \<Rightarrow>
                   (case tp_access_token payload of
                     None \<Rightarrow> (Inl (KeyError ''access_token''), w1)
                   | Some a \<Rightarrow>
                       let (now, w2) =
                             time_time (w1\<lparr>store := (store w1)\<lparr>ts_access_token := a\<rparr>\<rparr>)
                       in (case expires_in_seconds payload of
                             Inl e \<Rightarrow> (Inl e, w2)
                           | Inr lifetime \<Rightarrow>
                         (case float_add_int now lifetime of
                             Inl e \<Rightarrow> (Inl e, w2)
                           | Inr expiry \<Rightarrow>
                         let w3 = w2\<lparr>store := (store w2)\<lparr>ts_expires_at := Finite expiry\<rparr>\<rparr>
                         in (case tp_refresh_token payload of
                               None \<Rightarrow> (Inr (), w3)
                             | Some new_refresh \<Rightarrow>
                                 if new_refresh = [] then (Inr (), w3)
                                 else
                                   let w4 = w3\<lparr>store := (store w3)\<lparr>ts_refresh_token := new_refresh\<rparr>\<rparr>
                                   in (Inr (), snd (store_refresh_token new_refresh w4))))))))"

text \<open>
  \<open>urlencode\<close>, the PKCE pair, the CSRF state and the query-string reader
  (\<open>parse_qs(urlparse(u).query).get(k, [None])[0]\<close>) come from the standard library and
  the operating system's randomness; they are parameters of the model.
\<close>

record platform =
  urlencode :: "(string \<times> string) list \<Rightarrow> string"
  generate_pkce_pair :: "string \<times> string"
  generate_state :: string
  query_param :: "string \<Rightarrow> string \<Rightarrow> string option"

definition auth_endpoint :: "settings \<Rightarrow> string" where
  "auth_endpoint s = replace ''/token'' ''/auth'' (oauth_token_url s)"

definition default_redirect :: "settings \<Rightarrow> string" where
  "default_redirect s =
     (if redirect_uri s \<noteq> [] then redirect_uri s else ''https://oauth.pstmn.io/v1/callback'')"

definition make_auth_url :: "platform \<Rightarrow> settings \<Rightarrow> string \<times> string \<times> string" where
  "make_auth_url pf s =
     (let (code_verifier, code_challenge) = generate_pkce_pair pf;
          state = generate_state pf;
          params = urlencode pf
            [(''client_id'', client_id s), (''redirect_uri'', default_redirect s),
             (''response_type'', ''code''), (''scope'', ''commercial''),
             (''code_challenge'', code_challenge), (''code_challenge_method'', ''S256''),
             (''state'', state)]
      in (auth_endpoint s @ ''?'' @ params, code_verifier, state))"

definition exchange_code_for_tokens ::
  "string \<Rightarrow> string \<Rightarrow> settings \<Rightarrow> world \<Rightarrow> (exn + token_payload) \<times> world" where
  "exchange_code_for_tokens code code_verifier s w =
     (let (r, w1) = client_post (oauth_token_url s)
            [(''grant_type'', ''authorization_code''), (''code'', code),
             (''client_id'', client_id s), (''client_secret'', client_secret s),
             (''redirect_uri'', default_redirect s), (''code_verifier'', code_verifier),
             (''scope'', ''commercial'')] w
      in case r of
           Inl e \<Rightarrow> (Inl e, w1)
         | Inr resp \<Rightarrow>
             if \<not> is_success (tr_status_code resp)
             then (Inl (HTTPStatusError (tr_status_code resp)), w1)
             else (case tr_json resp of
                     None \<Rightarrow> (Inl JSONDecodeError, w1)
                   | Some payload \<Rightarrow> (Inr payload, w1)))"

section \<open>Authenticated requests (client.py)\<close>

definition ensure_token :: "settings \<Rightarrow> world \<Rightarrow> (exn + unit) \<times> world" where
  "ensure_token s w =
     (if ts_access_token (store w) = [] then refresh s w
      else
        let (now, w1) = time_time w
        in if \<not> is_valid (store w1) now then refresh s w1 else (Inr (), w1))"

definition auth_header :: "world \<Rightarrow> string" where
  "auth_header w = bearer (store w)"

text \<open>
  \<open>TOCOnlineError(errors, status)\<close>: the constructor walks \<open>errors\<close> and calls \<open>get\<close> on
  each entry, so it raises instead when \<open>errors\<close> is not iterable or an entry is not a
  dictionary.  The message text is not modelled.
\<close>

fun TOCOnlineError_init :: "json \<Rightarrow> int \<Rightarrow> exn" where
  "TOCOnlineError_init (JArr es) status =
     (if list_all is_dict es then TOCOnlineError (JArr es) status else AttributeError)"
| "TOCOnlineError_init (JStr t) status =
     (if t = [] then TOCOnlineError (JStr t) status else AttributeError)"
| "TOCOnlineError_init (JObj kvs) status =
     (if kvs = [] then TOCOnlineError (JObj kvs) status else AttributeError)"
| "TOCOnlineError_init errors status = TypeError"

definition raise_for_api_errors :: "response \<Rightarrow> exn option" where
  "raise_for_api_errors r =
     (if is_success (status_code r) then None
      else
        let fallback = JArr [JObj [(''code'', JStr (str_int (status_code r))),
                                   (''detail'', JStr (body_text r))]];
            errors = (case body_json r of
                        Some (JObj kvs) \<Rightarrow>
                          (let errors = (case map_of kvs ''errors'' of None \<Rightarrow> JArr [] | Some e \<Rightarrow> e)
                           in if \<not> truthy errors \<and> kvs = [] then fallback else errors)
                      | _ \<Rightarrow> fallback)
        in Some (TOCOnlineError_init errors (status_code r)))"

text \<open>What \<open>_request\<close> makes of the response it ends with.\<close>

definition response_result :: "response \<Rightarrow> exn + json" where
  "response_result r =
     (case raise_for_api_errors r of
        Some e \<Rightarrow> Inl e
      | None \<Rightarrow> (case body_json r of None \<Rightarrow> Inl JSONDecodeError | Some j \<Rightarrow> Inr j))"

text \<open>
  \<open>_SAFE_PATH_RE.match(path)\<close> for the pattern \<open>^/api[\w/.-]*$\<close>: \<open>\w\<close> is an
  alphanumeric character or the underscore, and \<open>$\<close> matches at the end of the string and
  also just before a newline that ends the string.
\<close>

definition path_char :: "char \<Rightarrow> bool" where
  "path_char c =
     (py_isalnum c \<or> c = CHR ''_'' \<or> c = CHR ''/'' \<or> c = CHR ''.'' \<or> c = CHR ''-'')"

definition SAFE_PATH_RE_match :: "string \<Rightarrow> bool" where
  "SAFE_PATH_RE_match path =
     (prefix ''/api'' path \<and>
      (let rest = drop 4 path
       in list_all path_char rest
          \<or> (rest \<noteq> [] \<and> last rest = CHR 0x0A \<and> list_all path_char (butlast rest))))"

definition request ::
  "settings \<Rightarrow> string \<Rightarrow> string \<Rightarrow> (string \<times> json) list \<Rightarrow> world \<Rightarrow> (exn + json) \<times> world" where
  "request s method path kwargs w =
     (if \<not> SAFE_PATH_RE_match path \<or> str_in ''..'' path then (Inl (ValueError path), w)
      else
        case ensure_token s w of
          (Inl e, w1) \<Rightarrow> (Inl e, w1)
        | (Inr _, w1) \<Rightarrow>
            (case client_request method path (auth_header w1) kwargs w1 of
               (Inl e, w2) \<Rightarrow> (Inl e, w2)
             | (Inr response, w2) \<Rightarrow>
                 if status_code response = 401 then
                   (case refresh s w2 of
                      (Inl e, w3) \<Rightarrow> (Inl e, w3)
                    | (Inr _, w3) \<Rightarrow>
                        (case client_request method path (auth_header w3) kwargs w3 of
                           (Inl e, w4) \<Rightarrow> (Inl e, w4)
                         | (Inr response2, w4) \<Rightarrow> (response_result response2, w4)))
                 else (response_result response, w2)))"

section \<open>The write gate (app.py)\<close>

definition READ_ONLY_ERROR :: string where
  "READ_ONLY_ERROR =
     ''This server is running in read-only mode (TOCONLINE_READ_ONLY=true). '' @
     ''Write operations (create, update, delete, finalize, send) are disabled.''"

definition RATE_LIMIT_ERROR :: "int \<Rightarrow> string" where
  "RATE_LIMIT_ERROR limit =
     ''Write operation rate limit exceeded (max '' @ str_int limit @ '' per session). '' @
     ''This safety limit prevents runaway automation. '' @
     ''Adjust TOCONLINE_MAX_WRITE_CALLS_PER_SESSION to change the limit.''"

text \<open>
  The process state the decorator works on: the module global \<open>_write_call_count\<close>, and
  whatever the wrapped operations act on.  A wrapped operation with its arguments is a
  function from that outside state to its result and the new outside state.  The wrapper
  raises nothing of its own: it returns its dictionary (\<open>Dict\<close>), or what the wrapped
  operation returned (\<open>FromFunc\<close>).
\<close>

datatype 'r returned = Dict "(string \<times> string) list" | FromFunc 'r

record 'w session =
  write_call_count :: int
  outside :: 'w

definition write_tool ::
  "settings \<Rightarrow> ('w \<Rightarrow> 'r \<times> 'w) \<Rightarrow> 'w session \<Rightarrow> 'r returned \<times> 'w session" where
  "write_tool s func st =
     (if read_only s then (Dict [(''error'', READ_ONLY_ERROR)], st)
      else
        let limit = max_write_calls_per_session s;
            st1 = (if limit > 0 then st\<lparr>write_call_count := write_call_count st + 1\<rparr> else st)
        in if limit > 0 \<and> write_call_count st1 > limit
           then (Dict [(''error'', RATE_LIMIT_ERROR limit)], st1)
           else (let (r, out) = func (outside st1) in (FromFunc r, st1\<lparr>outside := out\<rparr>)))"

text \<open>A sequence of invocations in one process, and the same operations run with no gate.\<close>

fun invoke_all ::
  "settings \<Rightarrow> ('w \<Rightarrow> 'r \<times> 'w) list \<Rightarrow> 'w session
     \<Rightarrow> 'r returned list \<times> 'w session" where
  "invoke_all s [] st = ([], st)"
| "invoke_all s (f # fs) st =
     (let (r, st1) = write_tool s f st; (rs, st2) = invoke_all s fs st1 in (r # rs, st2))"

fun run_ungated :: "('w \<Rightarrow> 'r \<times> 'w) list \<Rightarrow> 'w \<Rightarrow> 'r list \<times> 'w" where
  "run_ungated [] out = ([], out)"
| "run_ungated (f # fs) out =
     (let (r, out1) = f out; (rs, out2) = run_ungated fs out1 in (r # rs, out2))"

section \<open>Interactive login (cli.py)\<close>

definition is_callback_url :: "string \<Rightarrow> bool" where
  "is_callback_url u = (prefix ''http://'' u \<or> prefix ''https://'' u)"

definition extract_code :: "platform \<Rightarrow> string \<Rightarrow> string option" where
  "extract_code pf user_input =
     (let u = strip user_input
      in if u = [] then None
         else if is_callback_url u then query_param pf u ''code''
         else Some u)"

text \<open>
  \<open>_auth_login\<close>: what the operator types is \<open>Some\<close> line, or \<open>None\<close> when \<open>input\<close> is
  interrupted.  The outcome is the exit status of \<open>sys.exit\<close>, an exception that escapes,
  or a normal return.
\<close>

datatype outcome = Exit int | Raised exn | Returned

definition auth_login ::
  "platform \<Rightarrow> settings \<Rightarrow> string option \<Rightarrow> world \<Rightarrow> outcome \<times> world" where
  "auth_login pf s typed w =
     (if client_id s = [] \<or> client_secret s = [] then (Exit 1, w)
      else
        let (auth_url, code_verifier, expected_state) = make_auth_url pf s;
            w1 = w\<lparr>trace := trace w @ [BrowserOpen auth_url]\<rparr>
        in case typed of
             None \<Rightarrow> (Exit 1, w1)
           | Some user_input \<Rightarrow>
               if is_callback_url (strip user_input)
                  \<and> query_param pf (strip user_input) ''state'' \<noteq> Some expected_state
               then (Exit 1, w1)
               else
                 (case extract_code pf user_input of
                    None \<Rightarrow> (Exit 1, w1)
                  | Some code \<Rightarrow>
                      if code = [] then (Exit 1, w1)
                      else
                        (case exchange_code_for_tokens code code_verifier s w1 of
                           (Inl e, w2) \<Rightarrow> (Raised e, w2)
                         | (Inr tokens, w2) \<Rightarrow>
                             (case tp_refresh_token tokens of
                                None \<Rightarrow> (Exit 1, w2)
                              | Some rt \<Rightarrow>
                                  if rt = [] then (Exit 1, w2)
                                  else (Returned, snd (store_refresh_token rt w2))))))"

section \<open>The authorization endpoint as the specification words it\<close>


section \<open>Reading the trace\<close>

fun is_api_request :: "event \<Rightarrow> bool" where
  "is_api_request (ApiRequest method path authorization kwargs) = True"
| "is_api_request _ = False"

fun is_token_post :: "event \<Rightarrow> bool" where
  "is_token_post (TokenPost url data) = True"
| "is_token_post _ = False"

text \<open>The form body of the refresh grant, for the refresh string \<open>rt\<close>.\<close>

definition refresh_grant :: "settings \<Rightarrow> string \<Rightarrow> event" where
  "refresh_grant s rt =
     TokenPost (oauth_token_url s)
       [(''grant_type'', ''refresh_token''), (''refresh_token'', rt),
        (''client_id'', client_id s), (''client_secret'', client_secret s),
        (''scope'', ''commercial'')]"

section \<open>Concrete settings and worlds for the examples\<close>

text \<open>\<open>Settings()\<close> with no environment variable set: the defaults of the class.\<close>

definition Settings :: settings where
  "Settings =
     \<lparr>base_url = ''https://api10.toconline.pt'', access_token = [], client_id = [],
      client_secret = [], refresh_token = [], redirect_uri = [],
      oauth_token_url = ''https://app10.toconline.pt/oauth/token'', read_only = False,
      max_write_calls_per_session = 50\<rparr>"

text \<open>
  A world with a fresh token store, a clock that stands at 1000, no keyring package, and
  a network that refuses every connection.
\<close>

definition offline :: world where
  "offline =
     \<lparr>store = TokenStore, clock = sconst 1000,
      token_endpoint = sconst (Inl (OtherError ''ConnectError'')),
      api = sconst (Inl (OtherError ''ConnectError'')),
      keyring = sconst NotInstalled, trace = []\<rparr>"

definition api_reply :: "int \<Rightarrow> json \<Rightarrow> exn + response" where
  "api_reply status doc = Inr \<lparr>status_code = status, body_json = Some doc, body_text = []\<rparr>"

definition token_reply :: "int \<Rightarrow> token_payload \<Rightarrow> exn + token_response" where
  "token_reply status payload = Inr \<lparr>tr_status_code = status, tr_json = Some payload\<rparr>"

text \<open>
  A session started from a static bearer whose first API reply is 401 and whose second is
  200; settings with client credentials; and the same session holding a refresh string,
  with a token endpoint that issues a new bearer.
\<close>

definition static_world :: world where
  "static_world =
     offline\<lparr>store := load_static ''abc'' TokenStore,
       api := api_reply 401 (JObj []) ## sconst (api_reply 200 (JObj [(''retried'', JBool True)]))\<rparr>"

definition client_settings :: settings where
  "client_settings = Settings\<lparr>client_id := ''id'', client_secret := ''secret''\<rparr>"

definition rejected_world :: world where
  "rejected_world =
     static_world\<lparr>store := load_refresh_token ''r1'' (load_static ''abc'' TokenStore),
       token_endpoint := sconst (token_reply 200
         \<lparr>tp_access_token = Some ''a1'', tp_refresh_token = None, tp_expires_in = Some (JInt 3600)\<rparr>)\<rparr>"

text \<open>A session on a static bearer whose API answers every request with 200.\<close>

definition serving_world :: world where
  "serving_world =
     offline\<lparr>store := load_static ''abc'' TokenStore, api := sconst (api_reply 200 (JObj []))\<rparr>"

text \<open>
  A wrapped operation that counts its own invocations: the outside state is the number of
  times it has run, and it returns the count it found.  A new process has made no write
  call.
\<close>

definition counted_call :: "nat \<Rightarrow> nat \<times> nat" where
  "counted_call n = (n, Suc n)"

definition new_session :: "nat session" where
  "new_session = \<lparr>write_call_count = 0, outside = 0\<rparr>"

text \<open>
  A platform for the examples.  \<open>py_urlencode\<close> is \<open>urllib.parse.urlencode\<close> on string
  fields: letters, digits and \<open>_.-~\<close> stay, a space becomes \<open>+\<close>, any other character
  becomes the percent escapes of its UTF-8 bytes.  \<open>py_query_param\<close> reads a parameter as
  \<open>parse_qs(urlparse(u).query)\<close> does on a URL with no percent escape and no plus sign
  in its query: the query runs from the first \<open>?\<close> to the fragment, fields are split at
  \<open>&\<close> and at their first \<open>=\<close>, and blank values are dropped.
\<close>

definition percent :: "nat \<Rightarrow> string" where
  "percent b = [CHR ''%'', ''0123456789ABCDEF'' ! (b div 16), ''0123456789ABCDEF'' ! (b mod 16)]"

definition quote_plus_char :: "char \<Rightarrow> string" where
  "quote_plus_char c =
     (let n = (of_char c :: nat) in
        if (48 \<le> n \<and> n \<le> 57) \<or> (65 \<le> n \<and> n \<le> 90) \<or> (97 \<le> n \<and> n \<le> 122)
           \<or> c = CHR ''_'' \<or> c = CHR ''.'' \<or> c = CHR ''-'' \<or> c = CHR ''~'' then [c]
        else if c = CHR '' '' then ''+''
        else if n < 128 then percent n
        else percent (192 + n div 64) @ percent (128 + n mod 64))"

definition quote_plus :: "string \<Rightarrow> string" where
  "quote_plus t = concat (map quote_plus_char t)"

fun py_urlencode :: "(string \<times> string) list \<Rightarrow> string" where
  "py_urlencode [] = []"
| "py_urlencode [(k, v)] = quote_plus k @ ''='' @ quote_plus v"
| "py_urlencode ((k, v) # kvs) = quote_plus k @ ''='' @ quote_plus v @ ''&'' @ py_urlencode kvs"

fun split_on :: "char \<Rightarrow> string \<Rightarrow> string list" where
  "split_on sep [] = [[]]"
| "split_on sep (c # cs) =
     (if c = sep then [] # split_on sep cs
      else (case split_on sep cs of [] \<Rightarrow> [[c]] | f # fs \<Rightarrow> (c # f) # fs))"

fun first_value :: "string \<Rightarrow> string list \<Rightarrow> string option" where
  "first_value key [] = None"
| "first_value key (f # fs) =
     (if takeWhile (\<lambda>c. c \<noteq> CHR ''='') f = key \<and> drop 1 (dropWhile (\<lambda>c. c \<noteq> CHR ''='') f) \<noteq> []
      then Some (drop 1 (dropWhile (\<lambda>c. c \<noteq> CHR ''='') f))
      else first_value key fs)"

definition py_query_param :: "string \<Rightarrow> string \<Rightarrow> string option" where
  "py_query_param u key =
     first_value key
       (split_on CHR ''&''
          (drop 1 (dropWhile (\<lambda>c. c \<noteq> CHR ''?'') (takeWhile (\<lambda>c. c \<noteq> CHR ''#'') u))))"

definition cpython :: platform where
  "cpython =
     \<lparr>urlencode = py_urlencode,
      generate_pkce_pair = (''dBjftJeZ4CVP-mB92K27uhbUJU1p1r_wW1gFWFOEjXk'',
                            ''E9Melhoa2OwvFrEMTJguCHaoeK1t8URWbuGJSstw-cM''),
      generate_state = ''st4te'',
      query_param = py_query_param\<rparr>"

text \<open>
  The world of a login: no keyring package, and a token endpoint that answers the exchange
  with a bearer and a refresh string.
\<close>

definition login_world :: world where
  "login_world =
     offline\<lparr>token_endpoint := sconst (token_reply 200
       \<lparr>tp_access_token = Some ''acc'', tp_refresh_token = Some ''reftok'',
        tp_expires_in = Some (JInt 3600)\<rparr>)\<rparr>"

section \<open>Validity of the held bearer\<close>

text \<open>
  C6.  \<open>is_valid\<close> holds exactly when a bearer is present and the clock is strictly
  below \<open>expires_at - 60\<close>: with a finite expiry that is \<open>now < e - 60\<close>, so an expiry exactly
  60 seconds away, nearer, or in the past is invalid; \<open>load_static\<close> stores the token with
  expiry \<open>+infinity\<close>, and a bearer so installed is valid at every clock reading.
\<close>

theorem is_valid_buffer:
  "(ts_expires_at ts = Finite e \<longrightarrow>
      is_valid ts now = (ts_access_token ts \<noteq> [] \<and> now < e - 60))
   \<and> (ts_expires_at ts = Finite e \<and> e \<le> now + 60 \<longrightarrow> \<not> is_valid ts now)
   \<and> (ts_expires_at ts = PosInf \<longrightarrow> is_valid ts now = (ts_access_token ts \<noteq> []))
   \<and> ts_expires_at (load_static token ts) = PosInf
   \<and> ts_access_token (load_static token ts) = token
   \<and> (token \<noteq> [] \<longrightarrow> is_valid (load_static token ts) now)"
  by (auto simp: is_valid_def load_static_def)

theorem is_valid_buffer_witness:
  "is_valid (TokenStore\<lparr>ts_access_token := ''a1'', ts_expires_at := Finite 1000\<rparr>) 939
   \<and> \<not> is_valid (TokenStore\<lparr>ts_access_token := ''a1'', ts_expires_at := Finite 1000\<rparr>) 940
   \<and> \<not> is_valid (TokenStore\<lparr>ts_access_token := ''a1'', ts_expires_at := Finite 1000\<rparr>) 2000
   \<and> \<not> is_valid (TokenStore\<lparr>ts_expires_at := PosInf\<rparr>) 5
   \<and> is_valid (load_static ''abc'' TokenStore) 1700000000"
  using is_valid_buffer [of "TokenStore\<lparr>ts_access_token := ''a1'', ts_expires_at := Finite 1000\<rparr>" 1000 939 "''abc''"]
    is_valid_buffer [of "TokenStore\<lparr>ts_access_token := ''a1'', ts_expires_at := Finite 1000\<rparr>" 1000 940 "''abc''"]
    is_valid_buffer [of "TokenStore\<lparr>ts_access_token := ''a1'', ts_expires_at := Finite 1000\<rparr>" 1000 2000 "''abc''"]
    is_valid_buffer [of "TokenStore\<lparr>ts_expires_at := PosInf\<rparr>" 0 5 "''abc''"]
    is_valid_buffer [of TokenStore 0 1700000000 "''abc''"]
  by (simp add: TokenStore_def)

text \<open>
  C10.  \<open>load_refresh_token\<close> changes the held refresh string and nothing else: bearer and
  expiry are those of before, so \<open>is_valid\<close> has the same value before and after at any
  clock reading, and a freshly created store is still invalid after the call.
\<close>

theorem load_refresh_token_frame:
  "ts_refresh_token (load_refresh_token rt ts) = rt
   \<and> ts_access_token (load_refresh_token rt ts) = ts_access_token ts
   \<and> ts_expires_at (load_refresh_token rt ts) = ts_expires_at ts
   \<and> is_valid (load_refresh_token rt ts) now = is_valid ts now
   \<and> \<not> is_valid (load_refresh_token rt TokenStore) now"
  by (simp add: load_refresh_token_def is_valid_def TokenStore_def)

section \<open>Token renewal\<close>

lemma store_refresh_token_frame:
  "store (snd (store_refresh_token t w)) = store w"
  "clock (snd (store_refresh_token t w)) = clock w"
  "token_endpoint (snd (store_refresh_token t w)) = token_endpoint w"
  "api (snd (store_refresh_token t w)) = api w"
  "keyring (snd (store_refresh_token t w)) = stl (keyring w)"
  "trace (snd (store_refresh_token t w)) =
     trace w @ (if shd (keyring w) = NotInstalled then []
                else [KeyringSet SERVICE_NAME REFRESH_TOKEN_KEY t])"
  by (simp_all add: store_refresh_token_def Let_def split: keyring_outcome.splits)

text \<open>
  C5.  When the client id or the client secret is empty, or when neither the store nor the
  settings hold a refresh string, \<open>refresh\<close> raises its \<open>RuntimeError\<close> and leaves the
  world as it found it: the token store is unchanged, no reply of the token endpoint is
  consumed and nothing is added to the trace, so no network call was made.
\<close>

theorem refresh_configuration_error:
  "client_id s = [] \<or> client_secret s = []
     \<or> (ts_refresh_token (store w) = [] \<and> refresh_token s = [])
   \<Longrightarrow> refresh s w =
     (Inl (RuntimeError (if client_id s = [] \<or> client_secret s = []
                         then MissingClientCredentials else NoRefreshToken)), w)"
  by (auto simp: refresh_def held_or_fallback_def)

theorem refresh_configuration_error_witness:
  "refresh Settings
     (offline\<lparr>token_endpoint := sconst (token_reply 200
        \<lparr>tp_access_token = Some ''a1'', tp_refresh_token = None, tp_expires_in = None\<rparr>)\<rparr>)
    = (Inl (RuntimeError MissingClientCredentials),
       offline\<lparr>token_endpoint := sconst (token_reply 200
        \<lparr>tp_access_token = Some ''a1'', tp_refresh_token = None, tp_expires_in = None\<rparr>)\<rparr>)
   \<and> refresh (Settings\<lparr>client_id := ''id'', client_secret := ''secret''\<rparr>) offline
    = (Inl (RuntimeError NoRefreshToken), offline)"
  using refresh_configuration_error [of Settings
      "offline\<lparr>token_endpoint := sconst (token_reply 200
        \<lparr>tp_access_token = Some ''a1'', tp_refresh_token = None, tp_expires_in = None\<rparr>)\<rparr>"]
    refresh_configuration_error [of "Settings\<lparr>client_id := ''id'', client_secret := ''secret''\<rparr>"
      offline]
  by (simp add: Settings_def offline_def TokenStore_def)





section \<open>Authenticated requests\<close>

lemma refresh_api: "api (snd (refresh s w)) = api w"
  by (simp add: refresh_def client_post_def time_time_def Let_def store_refresh_token_frame
      split: sum.splits option.splits prod.splits)

lemma refresh_api_requests:
  "filter is_api_request (trace (snd (refresh s w))) = filter is_api_request (trace w)"
  by (simp add: refresh_def client_post_def time_time_def Let_def store_refresh_token_frame
      split: sum.splits option.splits prod.splits)

lemma refresh_ok_token_posts:
  "fst (refresh s w) = Inr u \<Longrightarrow>
   filter is_token_post (trace (snd (refresh s w))) =
     filter is_token_post (trace w) @ [refresh_grant s (held_or_fallback s w)]
   \<and> token_endpoint (snd (refresh s w)) = stl (token_endpoint w)"
  by (simp add: refresh_def client_post_def time_time_def Let_def store_refresh_token_frame
      refresh_grant_def split: sum.splits option.splits prod.splits if_splits)

lemma request_first_send:
  assumes "SAFE_PATH_RE_match path" "\<not> str_in ''..'' path"
    and "ensure_token s w = (Inr (), w1)" "shd (api w1) = Inr r1"
  shows "request s method path kwargs w =
     (let w2 = w1\<lparr>api := stl (api w1),
                   trace := trace w1 @ [ApiRequest method path (bearer (store w1)) kwargs]\<rparr>
      in if status_code r1 = 401 then
           (case refresh s w2 of
              (Inl e, w3) \<Rightarrow> (Inl e, w3)
            | (Inr u, w3) \<Rightarrow>
                (case shd (api w3) of Inl e \<Rightarrow> Inl e | Inr r2 \<Rightarrow> response_result r2,
                 w3\<lparr>api := stl (api w3),
                    trace := trace w3 @ [ApiRequest method path (bearer (store w3)) kwargs]\<rparr>))
         else (response_result r1, w2))"
  using assms
  by (simp add: request_def client_request_def auth_header_def Let_def
      split: sum.splits prod.splits)

text \<open>
  C1, as the code has it.  Take a call whose path passes the check, whose token check
  (with its proactive renewal, if any) succeeded, and whose first send got the reply \<open>r1\<close>.
  If the status of \<open>r1\<close> is not 401, the call ends with what \<open>r1\<close> gives: no renewal
  follows and nothing is resent.  If it is 401, \<open>refresh\<close> is called once.  When that
  renewal raises, its exception is the outcome of the call and nothing is resent: the
  trace holds the one API request.  When it succeeds, it made exactly one POST to the
  token endpoint, the request is sent once more with the same method, path and arguments
  and the header recomputed from the renewed store, and the outcome is what the second
  reply of the API gives, whatever its status.
\<close>

theorem request_retries_once:
  assumes "SAFE_PATH_RE_match path" "\<not> str_in ''..'' path"
    and "ensure_token s w = (Inr (), w1)" "shd (api w1) = Inr r1"
    and "w2 = w1\<lparr>api := stl (api w1),
                 trace := trace w1 @ [ApiRequest method path (bearer (store w1)) kwargs]\<rparr>"
  shows "(status_code r1 \<noteq> 401 \<longrightarrow> request s method path kwargs w = (response_result r1, w2))
    \<and> (status_code r1 = 401 \<and> fst (refresh s w2) = Inl e \<longrightarrow>
          request s method path kwargs w = (Inl e, snd (refresh s w2))
          \<and> api (snd (request s method path kwargs w)) = stl (api w1)
          \<and> filter is_api_request (trace (snd (request s method path kwargs w))) =
              filter is_api_request (trace w1) @ [ApiRequest method path (bearer (store w1)) kwargs])
    \<and> (status_code r1 = 401 \<and> fst (refresh s w2) = Inr () \<longrightarrow>
          fst (request s method path kwargs w) =
            (case shd (stl (api w1)) of Inl e' \<Rightarrow> Inl e' | Inr r2 \<Rightarrow> response_result r2)
          \<and> api (snd (request s method path kwargs w)) = stl (stl (api w1))
          \<and> filter is_api_request (trace (snd (request s method path kwargs w))) =
              filter is_api_request (trace w1) @
                [ApiRequest method path (bearer (store w1)) kwargs,
                 ApiRequest method path (bearer (store (snd (refresh s w2)))) kwargs]
          \<and> filter is_token_post (trace (snd (request s method path kwargs w))) =
              filter is_token_post (trace w1) @ [refresh_grant s (held_or_fallback s w1)]
          \<and> token_endpoint (snd (request s method path kwargs w)) = stl (token_endpoint w1))"
proof -
  note eq = request_first_send [OF assms(1-4), of "method" "kwargs", folded assms(5)]
  have a2: "api w2 = stl (api w1)" and h2: "held_or_fallback s w2 = held_or_fallback s w1"
    and t2: "token_endpoint w2 = token_endpoint w1"
    and p2: "filter is_token_post (trace w2) = filter is_token_post (trace w1)"
    and q2: "filter is_api_request (trace w2) =
        filter is_api_request (trace w1) @ [ApiRequest method path (bearer (store w1)) kwargs]"
    by (simp_all add: assms(5) held_or_fallback_def)
  have c1: "status_code r1 \<noteq> 401 \<longrightarrow> request s method path kwargs w = (response_result r1, w2)"
    by (simp add: eq Let_def)
  have c2: "status_code r1 = 401 \<and> fst (refresh s w2) = Inl e \<longrightarrow>
          request s method path kwargs w = (Inl e, snd (refresh s w2))
          \<and> api (snd (request s method path kwargs w)) = stl (api w1)
          \<and> filter is_api_request (trace (snd (request s method path kwargs w))) =
              filter is_api_request (trace w1) @ [ApiRequest method path (bearer (store w1)) kwargs]"
    using refresh_api [of s w2] refresh_api_requests [of s w2]
    by (cases "refresh s w2") (auto simp: eq Let_def a2 q2)
  have c3: "status_code r1 = 401 \<and> fst (refresh s w2) = Inr () \<longrightarrow>
          fst (request s method path kwargs w) =
            (case shd (stl (api w1)) of Inl e' \<Rightarrow> Inl e' | Inr r2 \<Rightarrow> response_result r2)
          \<and> api (snd (request s method path kwargs w)) = stl (stl (api w1))
          \<and> filter is_api_request (trace (snd (request s method path kwargs w))) =
              filter is_api_request (trace w1) @
                [ApiRequest method path (bearer (store w1)) kwargs,
                 ApiRequest method path (bearer (store (snd (refresh s w2)))) kwargs]
          \<and> filter is_token_post (trace (snd (request s method path kwargs w))) =
              filter is_token_post (trace w1) @ [refresh_grant s (held_or_fallback s w1)]
          \<and> token_endpoint (snd (request s method path kwargs w)) = stl (token_endpoint w1)"
    using refresh_api [of s w2] refresh_api_requests [of s w2]
      refresh_ok_token_posts [of s w2 "()"]
    by (cases "refresh s w2") (auto simp: eq Let_def a2 q2 h2 t2 p2)
  from c1 c2 c3 show ?thesis by blast
qed


theorem request_retries_once_witness:
  "fst (request client_settings ''GET'' ''/api/customers'' [] rejected_world)
     = Inr (JObj [(''retried'', JBool True)])
   \<and> filter is_api_request
        (trace (snd (request client_settings ''GET'' ''/api/customers'' [] rejected_world)))
     = [ApiRequest ''GET'' ''/api/customers'' ''Bearer abc'' [],
        ApiRequest ''GET'' ''/api/customers'' ''Bearer a1'' []]
   \<and> filter is_token_post
        (trace (snd (request client_settings ''GET'' ''/api/customers'' [] rejected_world)))
     = [refresh_grant client_settings ''r1'']"
  using request_retries_once [of "''/api/customers''" client_settings rejected_world
      rejected_world "\<lparr>status_code = 401, body_json = Some (JObj []), body_text = []\<rparr>"
      "rejected_world\<lparr>api := stl (api rejected_world),
          trace := trace rejected_world @ [ApiRequest ''GET'' ''/api/customers''
             (bearer (store rejected_world)) []]\<rparr>"
      "''GET''" "[]" "OtherError []"]
  by (simp add: ensure_token_def refresh_def expires_in_seconds_def float_add_int_def
      client_post_def time_time_def bearer_def is_valid_def response_result_def
      raise_for_api_errors_def is_success_def SAFE_PATH_RE_match_def path_char_def py_isalnum_def
      held_or_fallback_def store_refresh_token_def Let_def
      Settings_def offline_def TokenStore_def load_static_def api_reply_def token_reply_def
      static_world_def client_settings_def rejected_world_def load_refresh_token_def)

text \<open>
  The resend depends on the renewal: a session on a static bearer with no client
  credentials configured gets a 401, the renewal raises the configuration error, the
  request is not resent although a 200 reply was waiting, and the outcome of the call is
  the configuration error.
\<close>

theorem request_unauthorized_renewal_failure:
  "fst (request Settings ''GET'' ''/api/customers'' [] static_world)
     = Inl (RuntimeError MissingClientCredentials)
   \<and> trace (snd (request Settings ''GET'' ''/api/customers'' [] static_world))
     = [ApiRequest ''GET'' ''/api/customers'' ''Bearer abc'' []]
   \<and> shd (api (snd (request Settings ''GET'' ''/api/customers'' [] static_world)))
     = api_reply 200 (JObj [(''retried'', JBool True)])"
  by (simp add: request_def ensure_token_def refresh_def client_request_def time_time_def
      auth_header_def bearer_def is_valid_def response_result_def raise_for_api_errors_def
      is_success_def SAFE_PATH_RE_match_def path_char_def py_isalnum_def Let_def
      Settings_def offline_def TokenStore_def load_static_def api_reply_def
      static_world_def)

section \<open>The path check\<close>

lemma request_rejects_unsafe:
  "\<not> SAFE_PATH_RE_match path \<or> str_in ''..'' path \<Longrightarrow>
   request s method path kwargs w = (Inl (ValueError path), w)"
  by (auto simp: request_def)

lemma api_prefix_chars: "list_all path_char ''/api''"
  by (simp add: path_char_def py_isalnum_def)

text \<open>
  What the pattern accepts: the prefix, then allowed characters only, or allowed
  characters followed by one final newline.
\<close>

lemma SAFE_PATH_RE_match_iff:
  "SAFE_PATH_RE_match path \<longleftrightarrow>
     prefix ''/api'' path \<and>
     (list_all path_char path
      \<or> (4 < length path \<and> last path = CHR 0x0A \<and> list_all path_char (butlast path)))"
proof (cases "prefix ''/api'' path")
  case False
  then show ?thesis by (simp add: SAFE_PATH_RE_match_def)
next
  case True
  then obtain rest where p: "path = ''/api'' @ rest" by (auto simp: prefix_def)
  have "list_all path_char path = list_all path_char rest"
    using api_prefix_chars by (simp add: p)
  moreover have "rest \<noteq> [] \<Longrightarrow> list_all path_char (butlast path) = list_all path_char (butlast rest)"
    using api_prefix_chars by (simp add: p butlast_append)
  moreover have "rest \<noteq> [] \<Longrightarrow> last path = last rest" by (simp add: p)
  moreover have "(4 < length path) = (rest \<noteq> [])" by (simp add: p)
  ultimately show ?thesis
    using True by (auto simp: SAFE_PATH_RE_match_def Let_def p)
qed

text \<open>
  C7 at the path \<open>/api/customers\<close> followed by a newline.  The newline is not an allowed
  character, yet the pattern matches (its \<open>$\<close> matches before a final newline), the path
  has no \<open>..\<close>, and the request goes out: the trace holds the API request and the call
  returns the reply's body.
\<close>

theorem request_accepts_trailing_newline:
  "\<not> list_all path_char (''/api/customers'' @ [CHR 0x0A])
   \<and> fst (request Settings ''GET'' (''/api/customers'' @ [CHR 0x0A]) [] serving_world)
      = Inr (JObj [])
   \<and> trace (snd (request Settings ''GET'' (''/api/customers'' @ [CHR 0x0A]) [] serving_world))
      = [ApiRequest ''GET'' (''/api/customers'' @ [CHR 0x0A]) ''Bearer abc'' []]"
  by (simp add: request_def ensure_token_def refresh_def client_request_def time_time_def
      auth_header_def bearer_def is_valid_def response_result_def raise_for_api_errors_def
      is_success_def SAFE_PATH_RE_match_def path_char_def py_isalnum_def Let_def
      Settings_def offline_def TokenStore_def load_static_def api_reply_def
      serving_world_def)

theorem request_accepts_trailing_newline_witness:
  "fst (request Settings ''GET'' (''/api/customers'' @ [CHR 0x0A]) [] serving_world)
      = Inr (JObj [])"
  using request_accepts_trailing_newline by simp

section \<open>The write gate\<close>

lemma str_in_append: "str_in sub (pre @ sub @ post)"
proof (induction pre)
  case Nil
  have "prefix sub (sub @ post)" by simp
  then show ?case by (cases "sub @ post") auto
next
  case (Cons c pre)
  then show ?case by simp
qed

text \<open>
  C2.  With \<open>read_only\<close> set, the wrapper returns its dictionary, whose \<open>error\<close> entry is
  the read-only message, and the process state is the one it was called in: the counter
  is not incremented and, whatever the wrapped operation is, the state it acts on is
  untouched, so it was not invoked.  The message contains the text \<open>read-only\<close>.
\<close>

theorem write_tool_read_only:
  "read_only s \<Longrightarrow>
     write_tool s func st = (Dict [(''error'', READ_ONLY_ERROR)], st)
     \<and> str_in ''read-only'' READ_ONLY_ERROR"
  by (simp add: write_tool_def READ_ONLY_ERROR_def)

theorem write_tool_read_only_witness:
  "write_tool (Settings\<lparr>read_only := True\<rparr>) counted_call new_session
     = (Dict [(''error'', READ_ONLY_ERROR)], new_session)
   \<and> write_tool Settings counted_call new_session
     = (FromFunc 0, \<lparr>write_call_count = 1, outside = 1\<rparr>)"
  using write_tool_read_only [of "Settings\<lparr>read_only := True\<rparr>" counted_call new_session]
  by (simp add: Settings_def write_tool_def counted_call_def new_session_def)

lemma write_tool_step:
  assumes "\<not> read_only s" "0 < max_write_calls_per_session s"
  shows "write_call_count (snd (write_tool s f st)) = write_call_count st + 1"
  using assms by (simp add: write_tool_def Let_def split: prod.splits)

lemma invoke_all_limited:
  assumes "\<not> read_only s" "max_write_calls_per_session s = N" "0 < N"
  shows "invoke_all s fs st =
      (map FromFunc (fst (run_ungated (take (nat (N - write_call_count st)) fs) (outside st)))
         @ replicate (length fs - nat (N - write_call_count st))
             (Dict [(''error'', RATE_LIMIT_ERROR N)]),
       st\<lparr>write_call_count := write_call_count st + int (length fs),
          outside := snd (run_ungated (take (nat (N - write_call_count st)) fs) (outside st))\<rparr>)"
proof (induction fs arbitrary: st)
  case Nil
  then show ?case by simp
next
  case (Cons f fs)
  show ?case
  proof (cases "write_call_count st + 1 > N")
    case True
    then have k: "nat (N - write_call_count st) = 0" "nat (N - (write_call_count st + 1)) = 0"
      by simp_all
    have wt: "write_tool s f st =
        (Dict [(''error'', RATE_LIMIT_ERROR N)], st\<lparr>write_call_count := write_call_count st + 1\<rparr>)"
      using assms True by (simp add: write_tool_def Let_def)
    show ?thesis
      by (simp add: wt Cons.IH k add.assoc)
  next
    case False
    obtain r out where f: "f (outside st) = (r, out)" by (cases "f (outside st)")
    from False have k: "nat (N - write_call_count st) = Suc (nat (N - (write_call_count st + 1)))"
      by simp
    have wt: "write_tool s f st =
        (FromFunc r, st\<lparr>write_call_count := write_call_count st + 1, outside := out\<rparr>)"
      using assms False by (simp add: write_tool_def Let_def f)
    show ?thesis
      by (simp add: wt Cons.IH k f add.assoc split: prod.splits)
  qed
qed

lemma invoke_all_unlimited:
  assumes "\<not> read_only s" "max_write_calls_per_session s \<le> 0"
  shows "invoke_all s fs st =
      (map FromFunc (fst (run_ungated fs (outside st))),
       st\<lparr>outside := snd (run_ungated fs (outside st))\<rparr>)"
proof (induction fs arbitrary: st)
  case Nil
  then show ?case by simp
next
  case (Cons f fs)
  obtain r out where f: "f (outside st) = (r, out)" by (cases "f (outside st)")
  have wt: "write_tool s f st = (FromFunc r, st\<lparr>outside := out\<rparr>)"
    using assms by (simp add: write_tool_def Let_def f)
  show ?case by (simp add: wt Cons.IH f split: prod.splits)
qed


lemma rate_limit_error_names_limit:
  "str_in (''(max '' @ str_int N @ '' per session)'') (RATE_LIMIT_ERROR N)"
proof -
  have "RATE_LIMIT_ERROR N =
      ''Write operation rate limit exceeded '' @ (''(max '' @ str_int N @ '' per session)'') @
      (''. This safety limit prevents runaway automation. '' @
       ''Adjust TOCONLINE_MAX_WRITE_CALLS_PER_SESSION to change the limit.'')"
    by (simp add: RATE_LIMIT_ERROR_def)
  then show ?thesis
    using str_in_append by presburger
qed

text \<open>
  C3.  With \<open>read_only\<close> off, a ceiling \<open>N\<close> and a counter that starts at 0: when \<open>N\<close>
  is positive, every invocation adds exactly 1 to the counter; of a sequence of
  invocations the first \<open>N\<close> run their wrapped operations, in order, and return their
  results, every later one returns the rate-limit dictionary and runs nothing, and the
  counter ends at the number of invocations; the rate-limit message names \<open>N\<close>.  When
  \<open>N\<close> is 0, every invocation runs its wrapped operation.
\<close>

theorem write_tool_rate_limit:
  assumes "\<not> read_only s" "max_write_calls_per_session s = N" "write_call_count st = 0"
  shows "(0 < N \<longrightarrow>
            write_call_count (snd (write_tool s f st')) = write_call_count st' + 1
          \<and> invoke_all s fs st =
              (map FromFunc (fst (run_ungated (take (nat N) fs) (outside st)))
                 @ replicate (length fs - nat N) (Dict [(''error'', RATE_LIMIT_ERROR N)]),
               st\<lparr>write_call_count := int (length fs),
                  outside := snd (run_ungated (take (nat N) fs) (outside st))\<rparr>)
          \<and> str_in (''(max '' @ str_int N @ '' per session)'') (RATE_LIMIT_ERROR N))
       \<and> (N = 0 \<longrightarrow>
            invoke_all s fs st =
              (map FromFunc (fst (run_ungated fs (outside st))),
               st\<lparr>outside := snd (run_ungated fs (outside st))\<rparr>))"
proof (intro conjI impI)
  assume "0 < N"
  then show "write_call_count (snd (write_tool s f st')) = write_call_count st' + 1"
    using write_tool_step [of s f st'] assms by simp
  show "invoke_all s fs st =
              (map FromFunc (fst (run_ungated (take (nat N) fs) (outside st)))
                 @ replicate (length fs - nat N) (Dict [(''error'', RATE_LIMIT_ERROR N)]),
               st\<lparr>write_call_count := int (length fs),
                  outside := snd (run_ungated (take (nat N) fs) (outside st))\<rparr>)"
    using invoke_all_limited [OF assms(1,2) \<open>0 < N\<close>, of fs st] assms(3) by simp
  show "str_in (''(max '' @ str_int N @ '' per session)'') (RATE_LIMIT_ERROR N)"
    by (rule rate_limit_error_names_limit)
next
  assume "N = 0"
  then show "invoke_all s fs st =
              (map FromFunc (fst (run_ungated fs (outside st))),
               st\<lparr>outside := snd (run_ungated fs (outside st))\<rparr>)"
    using invoke_all_unlimited [of s fs st] assms by simp
qed

theorem write_tool_rate_limit_witness:
  "invoke_all (Settings\<lparr>max_write_calls_per_session := 2\<rparr>)
      [counted_call, counted_call, counted_call, counted_call] new_session
     = ([FromFunc 0, FromFunc 1, Dict [(''error'', RATE_LIMIT_ERROR 2)], Dict [(''error'', RATE_LIMIT_ERROR 2)]],
        \<lparr>write_call_count = 4, outside = 2\<rparr>)
   \<and> invoke_all (Settings\<lparr>max_write_calls_per_session := 0\<rparr>)
      [counted_call, counted_call, counted_call, counted_call] new_session
     = ([FromFunc 0, FromFunc 1, FromFunc 2, FromFunc 3], \<lparr>write_call_count = 0, outside = 4\<rparr>)
   \<and> RATE_LIMIT_ERROR 2 =
       ''Write operation rate limit exceeded (max 2 per session). '' @
       ''This safety limit prevents runaway automation. '' @
       ''Adjust TOCONLINE_MAX_WRITE_CALLS_PER_SESSION to change the limit.''"
  using write_tool_rate_limit [of "Settings\<lparr>max_write_calls_per_session := 2\<rparr>" 2 new_session
      counted_call new_session "[counted_call, counted_call, counted_call, counted_call]"]
    write_tool_rate_limit [of "Settings\<lparr>max_write_calls_per_session := 0\<rparr>" 0 new_session
      counted_call new_session "[counted_call, counted_call, counted_call, counted_call]"]
  by (simp add: Settings_def new_session_def counted_call_def RATE_LIMIT_ERROR_def str_int_def
      digit_char_def numeral_2_eq_2)

section \<open>The authorization URL\<close>










section \<open>Interactive login\<close>

text \<open>The exchange is one POST to the token endpoint, whatever the endpoint answers.\<close>

lemma exchange_code_for_tokens_trace:
  "trace (snd (exchange_code_for_tokens code v s w)) =
     trace w @ [TokenPost (oauth_token_url s)
        [(''grant_type'', ''authorization_code''), (''code'', code),
         (''client_id'', client_id s), (''client_secret'', client_secret s),
         (''redirect_uri'', default_redirect s), (''code_verifier'', v),
         (''scope'', ''commercial'')]]"
  by (simp add: exchange_code_for_tokens_def client_post_def Let_def
      split: sum.splits option.splits)

lemma auth_login_aborts_on_state_mismatch:
  assumes "is_callback_url (strip user_input)"
    and "query_param pf (strip user_input) ''state'' \<noteq> Some (snd (snd (make_auth_url pf s)))"
  shows "fst (auth_login pf s (Some user_input) w) = Exit 1"
    and "filter is_token_post (trace (snd (auth_login pf s (Some user_input) w))) =
          filter is_token_post (trace w)"
    and "token_endpoint (snd (auth_login pf s (Some user_input) w)) = token_endpoint w"
proof -
  obtain u v x where m: "make_auth_url pf s = (u, v, x)"
    by (cases "make_auth_url pf s") auto
  with assms(2) have ne: "query_param pf (strip user_input) ''state'' \<noteq> Some x" by simp
  show "fst (auth_login pf s (Some user_input) w) = Exit 1"
    and "filter is_token_post (trace (snd (auth_login pf s (Some user_input) w))) =
          filter is_token_post (trace w)"
    and "token_endpoint (snd (auth_login pf s (Some user_input) w)) = token_endpoint w"
    using assms(1) ne by (simp_all add: auth_login_def Let_def m)
qed

lemma auth_login_exchange_needs_check:
  assumes "filter is_token_post (trace (snd (auth_login pf s typed w))) \<noteq>
          filter is_token_post (trace w)"
  shows "\<exists>user_input. typed = Some user_input \<and>
          (is_callback_url (strip user_input) \<longrightarrow>
             query_param pf (strip user_input) ''state'' = Some (snd (snd (make_auth_url pf s))))"
proof (cases typed)
  case None
  obtain u v x where m: "make_auth_url pf s = (u, v, x)"
    by (cases "make_auth_url pf s") auto
  with assms None show ?thesis
    by (simp add: auth_login_def Let_def split: if_splits)
next
  case (Some user_input)
  show ?thesis
  proof (cases "is_callback_url (strip user_input) \<and>
      query_param pf (strip user_input) ''state'' \<noteq> Some (snd (snd (make_auth_url pf s)))")
    case True
    with auth_login_aborts_on_state_mismatch(2) [of user_input pf s w] assms Some
    show ?thesis by simp
  next
    case False
    with Some show ?thesis by auto
  qed
qed

text \<open>
  C8, as the code has it.  The state is checked when the pasted text, once trimmed, starts
  with \<open>http://\<close> or \<open>https://\<close>: if its \<open>state\<close> parameter is missing or differs from
  the state generated with the authorization URL, the login exits with status 1 and no
  POST is made to the token endpoint.  A login that does post the exchange was given a
  text that either is such a URL whose state was found equal to the generated one, or
  does not start with \<open>http://\<close> or \<open>https://\<close> and was taken as the code itself, with
  no state to check.
\<close>

theorem auth_login_state_check:
  "(is_callback_url (strip user_input)
      \<and> query_param pf (strip user_input) ''state'' \<noteq> Some (snd (snd (make_auth_url pf s)))
    \<longrightarrow> fst (auth_login pf s (Some user_input) w) = Exit 1
        \<and> filter is_token_post (trace (snd (auth_login pf s (Some user_input) w))) =
            filter is_token_post (trace w)
        \<and> token_endpoint (snd (auth_login pf s (Some user_input) w)) = token_endpoint w)
   \<and> (filter is_token_post (trace (snd (auth_login pf s typed w))) \<noteq>
          filter is_token_post (trace w)
    \<longrightarrow> (\<exists>typed_text. typed = Some typed_text \<and>
          (is_callback_url (strip typed_text) \<longrightarrow>
             query_param pf (strip typed_text) ''state'' = Some (snd (snd (make_auth_url pf s))))))"
  using auth_login_aborts_on_state_mismatch [of user_input pf s w]
    auth_login_exchange_needs_check [of pf s typed w]
  by blast

theorem auth_login_state_check_witness:
  "fst (auth_login cpython client_settings (Some ''https://localhost/cb?code=ABC&state=WRONG'')
         login_world) = Exit 1
   \<and> filter is_token_post
        (trace (snd (auth_login cpython client_settings
           (Some ''https://localhost/cb?code=ABC&state=WRONG'') login_world))) = []
   \<and> py_query_param ''https://localhost/cb?code=ABC&state=WRONG'' ''state'' = Some ''WRONG''
   \<and> snd (snd (make_auth_url cpython client_settings)) = ''st4te''"
  using auth_login_state_check [of "''https://localhost/cb?code=ABC&state=WRONG''" cpython
      client_settings login_world None]
  by (simp add: make_auth_url_def is_callback_url_def strip_def py_isspace_def Let_def
      cpython_def py_query_param_def login_world_def offline_def)

text \<open>
  A pasted bare code reaches the exchange with no state verified, and so does a callback
  address pasted without its scheme, whose state differs from the generated one: the
  whole text is sent as the code.
\<close>

theorem auth_login_exchanges_unverified:
  "fst (auth_login cpython client_settings (Some ''MYCODE'') login_world) = Returned
   \<and> filter is_token_post
        (trace (snd (auth_login cpython client_settings (Some ''MYCODE'') login_world)))
     = [TokenPost ''https://app10.toconline.pt/oauth/token''
          [(''grant_type'', ''authorization_code''), (''code'', ''MYCODE''),
           (''client_id'', ''id''), (''client_secret'', ''secret''),
           (''redirect_uri'', ''https://oauth.pstmn.io/v1/callback''),
           (''code_verifier'', ''dBjftJeZ4CVP-mB92K27uhbUJU1p1r_wW1gFWFOEjXk''),
           (''scope'', ''commercial'')]]
   \<and> py_query_param ''localhost/cb?code=ABC&state=WRONG'' ''state'' = Some ''WRONG''
   \<and> snd (snd (make_auth_url cpython client_settings)) = ''st4te''
   \<and> filter is_token_post
        (trace (snd (auth_login cpython client_settings
           (Some ''localhost/cb?code=ABC&state=WRONG'') login_world)))
     = [TokenPost ''https://app10.toconline.pt/oauth/token''
          [(''grant_type'', ''authorization_code''), (''code'', ''localhost/cb?code=ABC&state=WRONG''),
           (''client_id'', ''id''), (''client_secret'', ''secret''),
           (''redirect_uri'', ''https://oauth.pstmn.io/v1/callback''),
           (''code_verifier'', ''dBjftJeZ4CVP-mB92K27uhbUJU1p1r_wW1gFWFOEjXk''),
           (''scope'', ''commercial'')]]"
  by (simp add: auth_login_def make_auth_url_def auth_endpoint_def default_redirect_def
      exchange_code_for_tokens_def extract_code_def is_callback_url_def strip_def
      py_isspace_def client_post_def store_refresh_token_def is_success_def Let_def
      cpython_def py_query_param_def quote_plus_def quote_plus_char_def percent_def
      login_world_def client_settings_def Settings_def offline_def TokenStore_def
      token_reply_def)

end
